theory Spec2Isabelle
  imports Main "HOL-Library.Word"
begin

section \<open>Go values: panics, durations, errors\<close>

text \<open>
  A call either returns or panics (a field read through a nil pointer). A pointer that
  may be nil is an \<open>option\<close>; an \<open>error\<close> interface value that may be nil is an
  \<open>error option\<close>.
\<close>

datatype 'a go = Panic | Return 'a

text \<open>\<open>time.Duration\<close> is an \<open>int64\<close>; \<open>metav1.Time\<close> is kept as a number.\<close>

type_synonym Duration = "64 word"
type_synonym Time = int

text \<open>
  Error values as the code meets them: a sentinel made by \<open>errors.New\<close> (a pointer,
  so its identity is its address), a Kubernetes API status error with its reason, the
  \<open>liberr\<close> wrapper (konveyor/controller \<open>pkg/error\<close>) and any other wrapper that has
  an \<open>Unwrap\<close> method (\<open>fmt.Errorf\<close> with \<open>%w\<close>), which carries its whole message.
\<close>

datatype StatusReason = StatusReasonConflict | StatusReasonNotFound | StatusReasonUnknown

datatype error =
    ErrorString nat string
  | StatusError StatusReason string
  | LibError error
  | WrapError string error

text \<open>
  \<open>liberr.Wrap\<close>: returns \<open>err\<close> itself when it is nil or already a \<open>liberr\<close>
  error, and a new \<open>liberr\<close> error around it otherwise.
\<close>

fun liberr_Wrap :: "error option \<Rightarrow> error option" where
  "liberr_Wrap None = None"
| "liberr_Wrap (Some (LibError e)) = Some (LibError e)"
| "liberr_Wrap (Some e) = Some (LibError e)"

text \<open>\<open>err.Error()\<close>: the \<open>liberr\<close> wrapper shows the text of what it wraps.\<close>

fun Error :: "error \<Rightarrow> string" where
  "Error (ErrorString a m) = m"
| "Error (StatusError r m) = m"
| "Error (LibError e) = Error e"
| "Error (WrapError m e) = m"

text \<open>
  Modelled from the spec: \<open>errorutil.Unwrap\<close> (\<open>pkg/errorutil\<close> is not among the
  sources). The spec has conflicts "recognized by inspecting the underlying error's
  kind": the function strips every wrapper and returns the error underneath.
\<close>

fun Unwrap :: "error \<Rightarrow> error" where
  "Unwrap (LibError e) = Unwrap e"
| "Unwrap (WrapError m e) = Unwrap e"
| "Unwrap e = e"

text \<open>\<open>k8serrors.IsConflict\<close> and \<open>k8serrors.IsNotFound\<close>: the reason of a status error.\<close>

fun IsConflict :: "error \<Rightarrow> bool" where
  "IsConflict (StatusError r m) = (r = StatusReasonConflict)"
| "IsConflict e = False"

fun IsNotFound :: "error \<Rightarrow> bool" where
  "IsNotFound (StatusError r m) = (r = StatusReasonNotFound)"
| "IsNotFound e = False"

text \<open>\<open>errors.Is\<close>: some error of the chain is the target.\<close>

fun errors_Is :: "error \<Rightarrow> error \<Rightarrow> bool" where
  "errors_Is (LibError e) target = (LibError e = target \<or> errors_Is e target)"
| "errors_Is (WrapError m e) target = (WrapError m e = target \<or> errors_Is e target)"
| "errors_Is e target = (e = target)"

section \<open>The API objects\<close>

record Condition =
  Type :: string
  Status :: string
  Reason :: string
  Category :: string
  Message :: string
  Durable :: bool

record OwnerReference =
  Kind :: string
  Name :: string
  UID :: string

record DirectVolumeMigrationStatus =
  Conditions :: "Condition list"
  Phase :: string
  PhaseDescription :: string
  Itinerary :: string
  StartTimestamp :: "Time option"

record DirectVolumeMigration =
  Name :: string
  OwnerReferences :: "OwnerReference list"
  Status :: DirectVolumeMigrationStatus

record MigMigration =
  Name :: string

text \<open>The plan's status is kept as what \<open>plan.Status.IsReady()\<close> answers on it.\<close>

record MigPlanStatus =
  IsReady :: bool

record MigPlan =
  Name :: string
  Status :: MigPlanStatus

record PlanResources =
  MigPlan :: "MigPlan option"

record MigAnalyticPersistentVolume =
  Name :: string
  SparseFilesFound :: bool

record MigAnalyticNamespace =
  Namespace :: string
  PersistentVolumes :: "MigAnalyticPersistentVolume list"

record MigAnalyticPlan =
  Namespaces :: "MigAnalyticNamespace list"

record MigAnalyticStatus =
  Analytics :: MigAnalyticPlan

record MigAnalyticSpec =
  AnalyzeExtendedPVCapacity :: bool

record MigAnalytic =
  Spec :: MigAnalyticSpec
  Status :: MigAnalyticStatus

record MigCluster =
  Name :: string

record ConfigMap =
  Data :: "string \<rightharpoonup> string"

type_synonym sparseFilePVCMap = "string \<rightharpoonup> bool"

text \<open>
  What the reconciler reads from the clusters during one reconcile: the answer of every
  read call whose body is not among the sources, each as the pair (value, error) that
  the Go call returns. The client handed to \<open>GetClusterConfigMap\<close> is a handle.
\<close>

record Cluster =
  GetMigrationForDVM :: "DirectVolumeMigration \<Rightarrow> MigMigration option \<times> error option"
  GetPlan :: "MigMigration \<Rightarrow> MigPlan option \<times> error option"
  GetRefResources :: "MigPlan \<Rightarrow> PlanResources option \<times> error option"
  List :: "(string \<times> string) list \<Rightarrow> MigAnalytic list \<times> error option"
  GetDestinationCluster :: "DirectVolumeMigration \<Rightarrow> MigCluster option \<times> error option"
  GetClient :: "MigCluster option \<Rightarrow> nat option \<times> error option"
  GetClusterConfigMap :: "MigCluster option \<Rightarrow> nat option \<Rightarrow> ConfigMap option \<times> error option"

section \<open>Plan resource resolver\<close>

text \<open>
  \<open>getDVMPlanResources\<close>. After the check \<open>err != nil\<close> of each lookup has
  passed, \<open>err\<close> is nil, and that is the value the two branches "migration not found"
  and "plan not ready" hand to \<open>liberr.Wrap\<close>. Reading \<open>plan.Status\<close> through a nil
  plan panics.
\<close>

definition getDVMPlanResources ::
  "Cluster \<Rightarrow> DirectVolumeMigration \<Rightarrow> (PlanResources option \<times> error option) go" where
  "getDVMPlanResources r direct =
     (if length (DirectVolumeMigration.OwnerReferences direct) > 0 then
        (let planResources = Some \<lparr>MigPlan = None\<rparr>;
             (migration, err) = GetMigrationForDVM r direct
         in if err \<noteq> None then Return (planResources, liberr_Wrap err)
            else (case migration of
              None \<Rightarrow> Return (planResources, liberr_Wrap err)
            | Some migration \<Rightarrow>
                (let (plan, err) = GetPlan r migration
                 in if err \<noteq> None then Return (planResources, liberr_Wrap err)
                    else (case plan of
                      None \<Rightarrow> Panic
                    | Some plan \<Rightarrow>
                        (if \<not> IsReady (MigPlan.Status plan)
                         then Return (planResources, liberr_Wrap err)
                         else (let (planResources, err) = GetRefResources r plan
                               in if err \<noteq> None then Return (planResources, liberr_Wrap err)
                                  else Return (planResources, None)))))))
      else Return (Some \<lparr>MigPlan = None\<rparr>, None))"

section \<open>Sparse-file advisory\<close>

text \<open>The three nested \<open>range\<close> loops of \<open>getSparseFilePVCMap\<close>, innermost first.\<close>

definition pvLoop ::
  "MigAnalyticNamespace \<Rightarrow> MigAnalyticPersistentVolume \<Rightarrow> sparseFilePVCMap \<Rightarrow> sparseFilePVCMap" where
  "pvLoop ns pv sparseFilesMap =
     (if SparseFilesFound pv
      then sparseFilesMap(Namespace ns @ ''/'' @ MigAnalyticPersistentVolume.Name pv \<mapsto> True)
      else sparseFilesMap)"

definition nsLoop :: "MigAnalyticNamespace \<Rightarrow> sparseFilePVCMap \<Rightarrow> sparseFilePVCMap" where
  "nsLoop ns sparseFilesMap = fold (pvLoop ns) (PersistentVolumes ns) sparseFilesMap"

definition analyticLoop :: "MigAnalytic \<Rightarrow> sparseFilePVCMap \<Rightarrow> sparseFilePVCMap" where
  "analyticLoop migAnalytic sparseFilesMap =
     (if AnalyzeExtendedPVCapacity (Spec migAnalytic)
      then fold nsLoop (Namespaces (Analytics (MigAnalytic.Status migAnalytic))) sparseFilesMap
      else sparseFilesMap)"

text \<open>
  \<open>getSparseFilePVCMap\<close>: the returned map may be nil (on a listing error), so it is
  an \<open>option\<close>.
\<close>

definition getSparseFilePVCMap ::
  "Cluster \<Rightarrow> MigPlan option \<Rightarrow> sparseFilePVCMap option \<times> error option" where
  "getSparseFilePVCMap r plan =
     (let sparseFilesMap = Map.empty in
      case plan of
        None \<Rightarrow> (Some sparseFilesMap, None)
      | Some plan \<Rightarrow>
          (let (items, err) = List r [(''migplan'', MigPlan.Name plan)]
           in if err \<noteq> None then (None, liberr_Wrap err)
              else (Some (fold analyticLoop items sparseFilesMap), None)))"

section \<open>Endpoint resolver\<close>

text \<open>
  Modelled from the spec: the values of \<open>migapi.EndpointType\<close> (a string type whose
  constants are not among the sources). The spec gives the accepted values of the
  configuration key as \<open>Route | ClusterIP | NodePort\<close>.
\<close>

definition Route :: string where "Route = ''Route''"
definition ClusterIP :: string where "ClusterIP = ''ClusterIP''"
definition NodePort :: string where "NodePort = ''NodePort''"

text \<open>
  \<open>getEndpointType\<close>. The name of the configuration key
  (\<open>migapi.RSYNC_ENDPOINT_TYPE\<close>, declared outside the sources) is a parameter.
  Reading \<open>clusterConfig.Data\<close> through a nil config map panics.
\<close>

definition getEndpointType ::
  "string \<Rightarrow> Cluster \<Rightarrow> DirectVolumeMigration \<Rightarrow> (string \<times> error option) go" where
  "getEndpointType RSYNC_ENDPOINT_TYPE r direct =
     (let (destCluster, err) = GetDestinationCluster r direct
      in if err \<noteq> None then Return ([], liberr_Wrap err)
         else (let (destClient, err) = GetClient r destCluster
               in if err \<noteq> None then Return ([], liberr_Wrap err)
                  else (let (clusterConfig, err) = GetClusterConfigMap r destCluster destClient
                        in if err \<noteq> None then Return ([], liberr_Wrap err)
                           else (case clusterConfig of
                             None \<Rightarrow> Panic
                           | Some clusterConfig \<Rightarrow>
                               (case Data clusterConfig RSYNC_ENDPOINT_TYPE of
                                  None \<Rightarrow> Return (Route, None)
                                | Some endpointType \<Rightarrow>
                                    (if endpointType = Route \<or> endpointType = ClusterIP
                                        \<or> endpointType = NodePort
                                     then Return (endpointType, None)
                                     else Return (Route, None)))))))"

section \<open>Conditions\<close>

text \<open>
  Modelled from the spec: the names of the condition types, of the condition status, of
  the categories and of the two terminal phases (string constants declared outside the
  sources). The spec names them \<open>Running\<close>, \<open>Failed\<close>, \<open>Succeeded\<close>, \<open>True\<close>,
  \<open>Advisory\<close>, \<open>Critical\<close>, \<open>Warn\<close>, \<open>Completed\<close> and \<open>MigrationFailed\<close>.
\<close>

definition Running :: string where "Running = ''Running''"
definition Failed :: string where "Failed = ''Failed''"
definition Succeeded :: string where "Succeeded = ''Succeeded''"
definition True' :: string where "True' = ''True''"
definition Advisory :: string where "Advisory = ''Advisory''"
definition Critical :: string where "Critical = ''Critical''"
definition Warn :: string where "Warn = ''Warn''"
definition Completed :: string where "Completed = ''Completed''"
definition MigrationFailed :: string where "MigrationFailed = ''MigrationFailed''"

text \<open>
  Modelled from the spec: the condition list's \<open>FindCondition\<close>, \<open>SetCondition\<close> and
  \<open>DeleteCondition\<close> (\<open>pkg/apis/migration/v1alpha1\<close> is not among the sources). The
  spec has a condition found by its type, "set/replace"d ("replaced (not appended)") and
  "remove"d.
\<close>

definition FindCondition :: "DirectVolumeMigrationStatus \<Rightarrow> string \<Rightarrow> Condition option" where
  "FindCondition s cndType = find (\<lambda>c. Type c = cndType) (Conditions s)"

fun replaceCondition :: "Condition list \<Rightarrow> Condition \<Rightarrow> Condition list" where
  "replaceCondition [] condition = [condition]"
| "replaceCondition (c # cs) condition =
     (if Type c = Type condition then condition # cs else c # replaceCondition cs condition)"

definition SetCondition :: "DirectVolumeMigrationStatus \<Rightarrow> Condition \<Rightarrow> DirectVolumeMigrationStatus" where
  "SetCondition s condition = s\<lparr>Conditions := replaceCondition (Conditions s) condition\<rparr>"

definition DeleteCondition :: "DirectVolumeMigrationStatus \<Rightarrow> string \<Rightarrow> DirectVolumeMigrationStatus" where
  "DeleteCondition s cndType = s\<lparr>Conditions := filter (\<lambda>c. Type c \<noteq> cndType) (Conditions s)\<rparr>"

section \<open>The task and the package's declarations\<close>

text \<open>
  The \<open>Task\<close> of one reconcile, with the fields \<open>migrate\<close> sets or reads. Its
  \<open>Owner\<close> is the pointer \<open>direct\<close> itself, so the owner is not a field here: the one
  object is passed along with the task, and what the task writes to its owner is
  written to \<open>direct\<close>. The \<open>Itinerary\<close> type is declared outside the sources and is
  the type parameter.
\<close>

record 'i Task =
  Phase :: string
  PhaseDescription :: string
  PlanResources :: "PlanResources option"
  SparseFileMap :: "sparseFilePVCMap option"
  EndpointType :: string
  Itinerary :: 'i
  Requeue :: Duration

text \<open>
  The declarations of package \<open>directvolumemigration\<close> (and of \<open>migapi\<close>) that
  \<open>migrate\<close> uses and that are not among the sources, as parameters: the requeue
  durations, the sentinel \<open>FatalPlanError\<close>, the two messages
  (\<open>RunningMessage n total\<close> stands for \<open>fmt.Sprintf(RunningMessage, n, total)\<close>), the
  configuration key, the \<open>Itinerary\<close> type (its zero value, its \<open>Name\<close> field, its
  \<open>progressReport\<close> method) and \<open>Task.Run\<close>: one execution of the step executor on
  the task and its owner, returning both as it left them, and its error.
\<close>

record 'i Package =
  FastReQ :: Duration
  NoReQ :: Duration
  FatalPlanError :: error
  SucceededMessage :: string
  RunningMessage :: "int \<Rightarrow> int \<Rightarrow> string"
  RSYNC_ENDPOINT_TYPE :: string
  ItineraryZero :: 'i
  ItineraryName :: "'i \<Rightarrow> string"
  progressReport :: "'i \<Rightarrow> string \<Rightarrow> string \<times> int \<times> int"
  Run :: "'i Task \<Rightarrow> DirectVolumeMigration \<Rightarrow> 'i Task \<times> DirectVolumeMigration \<times> error option"

text \<open>
  Modelled from the spec: \<open>Task.fail\<close> (the task's methods are not among the
  sources). The spec: "transition to \<open>MigrationFailed\<close>, record a \<open>Critical\<close>-severity
  failure condition with the error text", and "failures are always recorded as a durable
  condition on the task object". The spec gives the condition no reason; the phase that
  failed is recorded, as \<open>migrate\<close> does for \<open>Succeeded\<close>.
\<close>

definition fail ::
  "'i Task \<Rightarrow> DirectVolumeMigration \<Rightarrow> string \<Rightarrow> string \<Rightarrow> string list
     \<Rightarrow> 'i Task \<times> DirectVolumeMigration" where
  "fail t owner nextPhase category reasons =
     (t\<lparr>Task.Phase := nextPhase\<rparr>,
      owner\<lparr>DirectVolumeMigration.Status :=
        SetCondition (DirectVolumeMigration.Status owner)
          \<lparr>Type = Failed, Status = True', Reason = Task.Phase t, Category = category,
           Message = concat reasons, Durable = True\<rparr>\<rparr>)"

section \<open>The phase execution engine\<close>

text \<open>
  \<open>migrate\<close>, from the comment \<open>// Result\<close> to its end: the task's phase is
  written to the status, then the \<open>Completed\<close> and the \<open>Running\<close> conditions.
\<close>

definition migrateResult ::
  "'i Package \<Rightarrow> 'i Task \<Rightarrow> DirectVolumeMigration
     \<Rightarrow> DirectVolumeMigration \<times> Duration \<times> error option" where
  "migrateResult k task direct =
     (let status = (DirectVolumeMigration.Status direct)
            \<lparr>DirectVolumeMigrationStatus.PhaseDescription := Task.PhaseDescription task,
             DirectVolumeMigrationStatus.Phase := Task.Phase task,
             DirectVolumeMigrationStatus.Itinerary := ItineraryName k (Task.Itinerary task)\<rparr>
      in if Task.Phase task = Completed then
           (let status = DeleteCondition status Running;
                failed = FindCondition status Failed;
                status = (if failed = None
                          then SetCondition status
                                 \<lparr>Type = Succeeded, Status = True', Reason = Task.Phase task,
                                  Category = Advisory, Message = SucceededMessage k,
                                  Durable = True\<rparr>
                          else status)
            in (direct\<lparr>DirectVolumeMigration.Status := status\<rparr>, NoReQ k, None))
         else
           (let (step, n, total) = progressReport k (Task.Itinerary task) (Task.Phase task);
                message = RunningMessage k n total;
                status = SetCondition status
                           \<lparr>Type = Running, Status = True', Reason = step,
                            Category = Advisory, Message = message, Durable = False\<rparr>
            in (direct\<lparr>DirectVolumeMigration.Status := status\<rparr>, Requeue task, None)))"

text \<open>
  \<open>migrate\<close>, the block \<open>// Started\<close>: the first reconcile stamps
  \<open>StartTimestamp\<close>; \<open>now\<close> is what \<open>time.Now()\<close> returns.
\<close>

definition markStarted :: "Time \<Rightarrow> DirectVolumeMigration \<Rightarrow> DirectVolumeMigration" where
  "markStarted now direct =
     (if StartTimestamp (DirectVolumeMigration.Status direct) = None
      then direct\<lparr>DirectVolumeMigration.Status :=
             (DirectVolumeMigration.Status direct)\<lparr>StartTimestamp := Some now\<rparr>\<rparr>
      else direct)"

text \<open>
  The \<open>Task\<close> literal of \<open>migrate\<close>; the fields it does not name have their zero
  values.
\<close>

definition newTask ::
  "'i Package \<Rightarrow> DirectVolumeMigration \<Rightarrow> PlanResources \<Rightarrow> sparseFilePVCMap option \<Rightarrow> string
     \<Rightarrow> 'i Task" where
  "newTask k direct planResources sparseFilePVCMap endpointType =
     \<lparr>Phase = DirectVolumeMigrationStatus.Phase (DirectVolumeMigration.Status direct),
      PhaseDescription =
        DirectVolumeMigrationStatus.PhaseDescription (DirectVolumeMigration.Status direct),
      PlanResources = Some planResources,
      SparseFileMap = sparseFilePVCMap,
      EndpointType = endpointType,
      Itinerary = ItineraryZero k,
      Requeue = 0\<rparr>"

text \<open>
  \<open>migrate\<close>, from the block \<open>// Started\<close> to the end of the error handling of
  \<open>task.Run\<close>, followed by the rest. The calls that only log or trace are left out.
\<close>

definition migrateRun ::
  "'i Package \<Rightarrow> Time \<Rightarrow> DirectVolumeMigration \<Rightarrow> PlanResources \<Rightarrow> sparseFilePVCMap option
     \<Rightarrow> string \<Rightarrow> DirectVolumeMigration \<times> Duration \<times> error option" where
  "migrateRun k now direct planResources sparseFilePVCMap endpointType =
     (let direct = markStarted now direct;
          task = newTask k direct planResources sparseFilePVCMap endpointType;
          (task, direct, err) = Run k task direct
      in case err of
           None \<Rightarrow> migrateResult k task direct
         | Some e \<Rightarrow>
             (if IsConflict (Unwrap e) then (direct, FastReQ k, None)
              else (let (task, direct) =
                          (if errors_Is e (FatalPlanError k)
                           then fail task direct MigrationFailed Critical [Error e]
                           else fail task direct MigrationFailed Warn [Error e])
                    in migrateResult k task direct)))"

text \<open>
  \<open>migrate\<close>: the three resolvers, each returning early on its error, then the rest.
  Reading \<open>planResources.MigPlan\<close> through a nil pointer panics.
\<close>

definition migrate ::
  "'i Package \<Rightarrow> Cluster \<Rightarrow> Time \<Rightarrow> DirectVolumeMigration
     \<Rightarrow> (DirectVolumeMigration \<times> Duration \<times> error option) go" where
  "migrate k r now direct =
     (case getDVMPlanResources r direct of
        Panic \<Rightarrow> Panic
      | Return (planResources, err) \<Rightarrow>
          (if err \<noteq> None then Return (direct, 0, liberr_Wrap err)
           else (case planResources of
             None \<Rightarrow> Panic
           | Some planResources \<Rightarrow>
               (let (sparseFilePVCMap, err) = getSparseFilePVCMap r (MigPlan planResources)
                in if err \<noteq> None then Return (direct, 0, liberr_Wrap err)
                   else (case getEndpointType (RSYNC_ENDPOINT_TYPE k) r direct of
                     Panic \<Rightarrow> Panic
                   | Return (endpointType, err) \<Rightarrow>
                       (if err \<noteq> None then Return (direct, 0, liberr_Wrap err)
                        else Return (migrateRun k now direct planResources
                                       sparseFilePVCMap endpointType)))))))"

section \<open>Trace correlator\<close>

record DirectImageMigration =
  Name :: string
  OwnerReferences :: "OwnerReference list"

text \<open>The reconciler of direct image migrations holds the tracer, nil until first used.\<close>

record 't ReconcileDirectImageMigration =
  tracer :: "'t option"

datatype 'c StartSpanOption = ChildOf 'c

text \<open>
  What \<open>initTracer\<close> uses of the settings, of \<open>pkg/tracing\<close> and of the opentracing
  library, as parameters: the tracer, span and span-context types, the setting
  \<open>settings.Settings.JaegerOpts.Enabled\<close>, \<open>migtrace.InitJaeger\<close> (the tracer it
  returns; the closer is discarded), the registry \<open>migtrace.GetSpanForMigrationUID\<close>
  (nil when no span is registered), \<open>Tracer.StartSpan\<close> and \<open>Span.Context\<close>.
\<close>

record ('t, 's, 'c) Tracing =
  Enabled :: bool
  InitJaeger :: "string \<Rightarrow> 't"
  GetSpanForMigrationUID :: "string \<Rightarrow> 's option"
  StartSpan :: "'t \<Rightarrow> string \<Rightarrow> 'c StartSpanOption list \<Rightarrow> 's"
  Context :: "'s \<Rightarrow> 'c"

text \<open>
  The body of the loop over the owner references: an owner of another kind is skipped,
  a \<open>MigMigration\<close> owner overwrites \<open>migrationSpan\<close> with what is registered for it.
\<close>

definition ownerRefLoop ::
  "('t, 's, 'c) Tracing \<Rightarrow> OwnerReference \<Rightarrow> 's option \<Rightarrow> 's option" where
  "ownerRefLoop tr ownerRef migrationSpan =
     (if Kind ownerRef \<noteq> ''MigMigration'' then migrationSpan
      else GetSpanForMigrationUID tr (UID ownerRef))"

text \<open>\<open>initTracer\<close> returns the span (nil: \<open>None\<close>) and the reconciler as it leaves it.\<close>

definition initTracer ::
  "('t, 's, 'c) Tracing \<Rightarrow> 't ReconcileDirectImageMigration \<Rightarrow> DirectImageMigration
     \<Rightarrow> 's option \<times> 't ReconcileDirectImageMigration" where
  "initTracer tr r dim =
     (if \<not> Enabled tr then (None, r)
      else
        (let t = (case tracer r of None \<Rightarrow> InitJaeger tr ''DirectImageMigration'' | Some t \<Rightarrow> t);
             r = r\<lparr>tracer := Some t\<rparr>;
             migrationSpan = fold (ownerRefLoop tr) (DirectImageMigration.OwnerReferences dim) None
         in case migrationSpan of
              None \<Rightarrow> (None, r)
            | Some migrationSpan \<Rightarrow>
                (Some (StartSpan tr t (''dim-reconcile-'' @ DirectImageMigration.Name dim)
                         [ChildOf (Context tr migrationSpan)]), r)))"

text \<open>
  The owning \<open>MigMigration\<close> of an object, in the spec's words: its owner reference
  of kind \<open>MigMigration\<close> (the last one, should there be several), and the root span
  registered for that owner's UID.
\<close>

definition owningMigration :: "OwnerReference list \<Rightarrow> OwnerReference option" where
  "owningMigration ownerRefs =
     (case filter (\<lambda>ownerRef. Kind ownerRef = ''MigMigration'') ownerRefs of
        [] \<Rightarrow> None
      | owners \<Rightarrow> Some (last owners))"

definition registeredSpan :: "('t, 's, 'c) Tracing \<Rightarrow> DirectImageMigration \<Rightarrow> 's option" where
  "registeredSpan tr dim =
     (case owningMigration (DirectImageMigration.OwnerReferences dim) of
        None \<Rightarrow> None
      | Some ownerRef \<Rightarrow> GetSpanForMigrationUID tr (UID ownerRef))"

section \<open>Concrete inputs\<close>

definition exOwner :: OwnerReference where
  "exOwner = \<lparr>Kind = ''MigMigration'', Name = ''migration-1'', UID = ''uid-1''\<rparr>"

definition exDirect :: DirectVolumeMigration where
  "exDirect =
     \<lparr>DirectVolumeMigration.Name = ''dvm-1'',
      DirectVolumeMigration.OwnerReferences = [exOwner],
      DirectVolumeMigration.Status =
        \<lparr>Conditions = [], DirectVolumeMigrationStatus.Phase = ''Created'',
         DirectVolumeMigrationStatus.PhaseDescription = [],
         DirectVolumeMigrationStatus.Itinerary = [], StartTimestamp = None\<rparr>\<rparr>"

definition exPlan :: MigPlan where
  "exPlan = \<lparr>MigPlan.Name = ''plan-1'', MigPlan.Status = \<lparr>IsReady = True\<rparr>\<rparr>"

definition exAnalytic :: MigAnalytic where
  "exAnalytic =
     \<lparr>Spec = \<lparr>AnalyzeExtendedPVCapacity = True\<rparr>,
      Status = \<lparr>Analytics = \<lparr>Namespaces =
        [\<lparr>Namespace = ''ns1'',
          PersistentVolumes =
            [\<lparr>MigAnalyticPersistentVolume.Name = ''pvc-a'', SparseFilesFound = True\<rparr>,
             \<lparr>MigAnalyticPersistentVolume.Name = ''pvc-b'', SparseFilesFound = False\<rparr>]\<rparr>]\<rparr>\<rparr>\<rparr>"

text \<open>A cluster on which every lookup succeeds; the configured endpoint type is invalid.\<close>

definition exCluster :: Cluster where
  "exCluster =
     \<lparr>GetMigrationForDVM = (\<lambda>direct. (Some \<lparr>MigMigration.Name = ''migration-1''\<rparr>, None)),
      GetPlan = (\<lambda>migration. (Some exPlan, None)),
      GetRefResources = (\<lambda>plan. (Some \<lparr>MigPlan = Some plan\<rparr>, None)),
      List = (\<lambda>labels. ([exAnalytic], None)),
      GetDestinationCluster = (\<lambda>direct. (Some \<lparr>MigCluster.Name = ''dest''\<rparr>, None)),
      GetClient = (\<lambda>cluster. (Some 0, None)),
      GetClusterConfigMap =
        (\<lambda>cluster client. (Some \<lparr>Data = [''RSYNC_ENDPOINT_TYPE'' \<mapsto> ''bogus'']\<rparr>, None))\<rparr>"

definition exNotFound :: error where
  "exNotFound = StatusError StatusReasonNotFound ''migmigrations \"migration-1\" not found''"

definition exConflict :: error where
  "exConflict = StatusError StatusReasonConflict ''the object has been modified''"

definition exUnavailable :: error where
  "exUnavailable = StatusError StatusReasonUnknown ''connection refused''"

text \<open>
  A package whose step executor answers with a given error and leaves the task and its
  owner alone, and one whose executor completes the task.
\<close>

definition exPackage :: "error option \<Rightarrow> string list Package" where
  "exPackage err =
     \<lparr>FastReQ = 100000000, NoReQ = 0,
      FatalPlanError = ErrorString 1 ''fatal plan error'',
      SucceededMessage = ''The migration has completed successfully.'',
      RunningMessage = (\<lambda>n total. ''Running''),
      RSYNC_ENDPOINT_TYPE = ''RSYNC_ENDPOINT_TYPE'',
      ItineraryZero = [],
      ItineraryName = (\<lambda>itinerary. ''VolumeMigration''),
      progressReport = (\<lambda>itinerary phase. (phase, 1, 2)),
      Run = (\<lambda>task direct. (task\<lparr>Requeue := 3000000000\<rparr>, direct, err))\<rparr>"

definition exPackageCompleted :: "string list Package" where
  "exPackageCompleted =
     (exPackage None)\<lparr>Run := (\<lambda>task direct. (task\<lparr>Task.Phase := Completed\<rparr>, direct, None))\<rparr>"

text \<open>
  An executor that completes a task whose owner carries a \<open>Failed\<close> and a \<open>Running\<close>
  condition.
\<close>

definition exFailedCondition :: Condition where
  "exFailedCondition =
     \<lparr>Type = Failed, Status = True', Reason = ''Created'', Category = Warn,
      Message = ''connection refused'', Durable = True\<rparr>"

definition exRunningCondition :: Condition where
  "exRunningCondition =
     \<lparr>Type = Running, Status = True', Reason = ''Created'', Category = Advisory,
      Message = ''Running'', Durable = False\<rparr>"

definition exPackageCompletedFailed :: "string list Package" where
  "exPackageCompletedFailed =
     (exPackage None)\<lparr>Run := (\<lambda>task direct.
        (task\<lparr>Task.Phase := Completed\<rparr>,
         direct\<lparr>DirectVolumeMigration.Status :=
           (DirectVolumeMigration.Status direct)
             \<lparr>Conditions := [exFailedCondition, exRunningCondition]\<rparr>\<rparr>,
         None))\<rparr>"

definition exTracing :: "(nat, string, string) Tracing" where
  "exTracing =
     \<lparr>Enabled = True,
      InitJaeger = (\<lambda>service. 7),
      GetSpanForMigrationUID = (\<lambda>uid. if uid = ''uid-1'' then Some ''root-uid-1'' else None),
      StartSpan = (\<lambda>t operationName opts. operationName),
      Context = (\<lambda>span. span)\<rparr>"

definition exImage :: DirectImageMigration where
  "exImage = \<lparr>Name = ''dim-1'', OwnerReferences = [exOwner]\<rparr>"

text \<open>Clusters on which one resolver fails: each of the three in turn.\<close>

definition exClusterLookupFails :: Cluster where
  "exClusterLookupFails =
     exCluster\<lparr>GetMigrationForDVM := (\<lambda>direct. (None, Some exNotFound))\<rparr>"

definition exClusterListFails :: Cluster where
  "exClusterListFails = exCluster\<lparr>List := (\<lambda>labels. ([], Some exUnavailable))\<rparr>"

definition exClusterDestFails :: Cluster where
  "exClusterDestFails =
     exCluster\<lparr>GetDestinationCluster := (\<lambda>direct. (None, Some exUnavailable))\<rparr>"

text \<open>The task the example step executors return, and the object stamped at time 5.\<close>

definition exTask :: "string list Task" where
  "exTask =
     \<lparr>Phase = ''Created'', PhaseDescription = [],
      PlanResources = Some \<lparr>MigPlan = Some exPlan\<rparr>,
      SparseFileMap = Some [''ns1/pvc-a'' \<mapsto> True],
      EndpointType = Route, Itinerary = [], Requeue = 3000000000\<rparr>"

definition exStarted :: DirectVolumeMigration where
  "exStarted =
     exDirect\<lparr>DirectVolumeMigration.Status :=
       (DirectVolumeMigration.Status exDirect)\<lparr>StartTimestamp := Some 5\<rparr>\<rparr>"

section \<open>The resolvers: proofs\<close>

subsection \<open>Sparse-file advisory\<close>

lemma fold_pvLoop:
  "fold (pvLoop ns) pvs m k =
     (if \<exists>pv\<in>set pvs. SparseFilesFound pv \<and> k = Namespace ns @ ''/'' @ MigAnalyticPersistentVolume.Name pv
      then Some True else m k)"
  by (induction pvs arbitrary: m) (auto simp: pvLoop_def)

lemma fold_nsLoop:
  "fold nsLoop nss m k =
     (if \<exists>ns\<in>set nss. \<exists>pv\<in>set (PersistentVolumes ns).
           SparseFilesFound pv \<and> k = Namespace ns @ ''/'' @ MigAnalyticPersistentVolume.Name pv
      then Some True else m k)"
  by (induction nss arbitrary: m) (auto simp: nsLoop_def fold_pvLoop)

lemma analyticLoop_apply:
  "analyticLoop a m k =
     (if AnalyzeExtendedPVCapacity (Spec a) \<and>
         (\<exists>ns\<in>set (Namespaces (Analytics (MigAnalytic.Status a))). \<exists>pv\<in>set (PersistentVolumes ns).
              SparseFilesFound pv \<and> k = Namespace ns @ ''/'' @ MigAnalyticPersistentVolume.Name pv)
      then Some True else m k)"
  unfolding analyticLoop_def fold_nsLoop by (cases "AnalyzeExtendedPVCapacity (Spec a)") simp_all

lemma fold_if_some:
  assumes "\<And>a m. f a m k = (if P a then Some True else m k)"
  shows "fold f xs m k = (if \<exists>a\<in>set xs. P a then Some True else m k)"
  using assms by (induction xs arbitrary: m) auto

lemma fold_analyticLoop:
  "fold analyticLoop items m k =
     (if \<exists>a\<in>set items. AnalyzeExtendedPVCapacity (Spec a) \<and>
           (\<exists>ns\<in>set (Namespaces (Analytics (MigAnalytic.Status a))). \<exists>pv\<in>set (PersistentVolumes ns).
              SparseFilesFound pv \<and> k = Namespace ns @ ''/'' @ MigAnalyticPersistentVolume.Name pv)
      then Some True else m k)"
  by (rule fold_if_some) (rule analyticLoop_apply)

text \<open>
  Claim C7. For a nil plan \<open>getSparseFilePVCMap\<close> returns an empty map and no error.
  For a plan whose analytics are listed without error it returns a map and no error;
  every key of the map has the value true; and a key is in the map exactly when it is
  \<open>namespace/volume\<close> for a volume flagged \<open>SparseFilesFound\<close> in a namespace of a
  listed record with \<open>AnalyzeExtendedPVCapacity\<close> set. So the volumes of a record
  without \<open>AnalyzeExtendedPVCapacity\<close> contribute no key.
\<close>

theorem getSparseFilePVCMap_spec:
  "getSparseFilePVCMap r None = (Some Map.empty, None) \<and>
   (List r [(''migplan'', MigPlan.Name plan)] = (items, None) \<longrightarrow>
      (\<exists>m. getSparseFilePVCMap r (Some plan) = (Some m, None) \<and>
           (\<forall>k. (k \<in> dom m) = (m k = Some True)) \<and>
           (\<forall>k. (m k = Some True) =
              (\<exists>a\<in>set items. AnalyzeExtendedPVCapacity (Spec a) \<and>
                 (\<exists>ns\<in>set (Namespaces (Analytics (MigAnalytic.Status a))).
                    \<exists>pv\<in>set (PersistentVolumes ns).
                      SparseFilesFound pv \<and>
                      k = Namespace ns @ ''/'' @ MigAnalyticPersistentVolume.Name pv)))))"
  by (auto simp: getSparseFilePVCMap_def fold_analyticLoop dom_def)

theorem getSparseFilePVCMap_spec_witness:
  "\<exists>m. getSparseFilePVCMap exCluster (Some exPlan) = (Some m, None) \<and>
       m ''ns1/pvc-a'' = Some True \<and> m ''ns1/pvc-b'' = None"
proof -
  have "List exCluster [(''migplan'', MigPlan.Name exPlan)] = ([exAnalytic], None)"
    by (simp add: exCluster_def)
  with getSparseFilePVCMap_spec [of exCluster exPlan "[exAnalytic]"]
  obtain m where m: "getSparseFilePVCMap exCluster (Some exPlan) = (Some m, None)"
    and d: "\<forall>k. (k \<in> dom m) = (m k = Some True)"
    and f: "\<forall>k. (m k = Some True) =
              (\<exists>a\<in>set [exAnalytic]. AnalyzeExtendedPVCapacity (Spec a) \<and>
                 (\<exists>ns\<in>set (Namespaces (Analytics (MigAnalytic.Status a))).
                    \<exists>pv\<in>set (PersistentVolumes ns).
                      SparseFilesFound pv \<and>
                      k = Namespace ns @ ''/'' @ MigAnalyticPersistentVolume.Name pv))"
    by blast
  have a: "m ''ns1/pvc-a'' = Some True"
    unfolding f [rule_format] by (simp add: exAnalytic_def)
  have "m ''ns1/pvc-b'' \<noteq> Some True"
    unfolding f [rule_format] by (simp add: exAnalytic_def)
  with d have b: "m ''ns1/pvc-b'' = None"
    by (metis domIff)
  from m a b show ?thesis by blast
qed

subsection \<open>Endpoint resolver\<close>

text \<open>
  Claim C8. When the destination cluster, its client and its config map resolve,
  \<open>getEndpointType\<close> returns \<open>Route\<close> and no error when the key is absent, the
  configured value and no error when it is \<open>Route\<close>, \<open>ClusterIP\<close> or \<open>NodePort\<close>,
  and \<open>Route\<close> and no error for any other value.
\<close>

theorem getEndpointType_spec:
  assumes "GetDestinationCluster r direct = (destCluster, None)"
    and "GetClient r destCluster = (destClient, None)"
    and "GetClusterConfigMap r destCluster destClient = (Some clusterConfig, None)"
  shows "(Data clusterConfig key = None \<longrightarrow> getEndpointType key r direct = Return (Route, None)) \<and>
         (\<forall>v. Data clusterConfig key = Some v \<and> v \<in> {Route, ClusterIP, NodePort} \<longrightarrow>
              getEndpointType key r direct = Return (v, None)) \<and>
         (\<forall>v. Data clusterConfig key = Some v \<and> v \<notin> {Route, ClusterIP, NodePort} \<longrightarrow>
              getEndpointType key r direct = Return (Route, None))"
  using assms by (simp add: getEndpointType_def)

theorem getEndpointType_spec_witness:
  "getEndpointType ''RSYNC_ENDPOINT_TYPE'' exCluster exDirect = Return (Route, None) \<and>
   getEndpointType ''OTHER_KEY'' exCluster exDirect = Return (Route, None) \<and>
   getEndpointType ''RSYNC_ENDPOINT_TYPE''
     (exCluster\<lparr>GetClusterConfigMap :=
        (\<lambda>cluster client. (Some \<lparr>Data = [''RSYNC_ENDPOINT_TYPE'' \<mapsto> ''NodePort'']\<rparr>, None))\<rparr>)
     exDirect = Return (NodePort, None)"
  using
    getEndpointType_spec [of exCluster exDirect "Some \<lparr>MigCluster.Name = ''dest''\<rparr>" "Some 0"
      "\<lparr>Data = [''RSYNC_ENDPOINT_TYPE'' \<mapsto> ''bogus'']\<rparr>" "''RSYNC_ENDPOINT_TYPE''"]
    getEndpointType_spec [of exCluster exDirect "Some \<lparr>MigCluster.Name = ''dest''\<rparr>" "Some 0"
      "\<lparr>Data = [''RSYNC_ENDPOINT_TYPE'' \<mapsto> ''bogus'']\<rparr>" "''OTHER_KEY''"]
    getEndpointType_spec [of
      "exCluster\<lparr>GetClusterConfigMap :=
        (\<lambda>cluster client. (Some \<lparr>Data = [''RSYNC_ENDPOINT_TYPE'' \<mapsto> ''NodePort'']\<rparr>, None))\<rparr>"
      exDirect "Some \<lparr>MigCluster.Name = ''dest''\<rparr>" "Some 0"
      "\<lparr>Data = [''RSYNC_ENDPOINT_TYPE'' \<mapsto> ''NodePort'']\<rparr>" "''RSYNC_ENDPOINT_TYPE''"]
  by (simp add: exCluster_def Route_def ClusterIP_def NodePort_def)

subsection \<open>Plan resource resolver\<close>

text \<open>
  Claim C5, evaluated where it fails: the task has an owner, its migration and its plan
  are found, and the plan is not ready. \<open>getDVMPlanResources\<close> logs "Plan not ready."
  and returns \<open>liberr.Wrap(err)\<close> with \<open>err\<close> nil: an empty resource set and no
  error.
\<close>

theorem getDVMPlanResources_plan_not_ready:
  "getDVMPlanResources
     (exCluster\<lparr>GetPlan := (\<lambda>migration. (Some (exPlan\<lparr>MigPlan.Status := \<lparr>IsReady = False\<rparr>\<rparr>), None))\<rparr>)
     exDirect = Return (Some \<lparr>MigPlan = None\<rparr>, None)"
  by (simp add: getDVMPlanResources_def exCluster_def exDirect_def exPlan_def)

text \<open>
  Claim C6, evaluated where it fails: the task has an owner and the lookup of its
  migration yields no migration and no error. \<open>getDVMPlanResources\<close> logs "Migration
  not found for DVM" and returns \<open>liberr.Wrap(err)\<close> with \<open>err\<close> nil: an empty
  resource set and no error, so no error of kind NotFound.
\<close>

theorem getDVMPlanResources_migration_absent:
  "getDVMPlanResources (exCluster\<lparr>GetMigrationForDVM := (\<lambda>direct. (None, None))\<rparr>) exDirect
     = Return (Some \<lparr>MigPlan = None\<rparr>, None)"
  by (simp add: getDVMPlanResources_def exCluster_def exDirect_def)

text \<open>
  Both hold for every input of that shape, and a task without owner gets the same
  answer; the sibling branch, where the lookup itself returns an error, does return it,
  with the same error underneath.
\<close>

lemma getDVMPlanResources_not_ready:
  assumes "DirectVolumeMigration.OwnerReferences direct \<noteq> []"
    and "GetMigrationForDVM r direct = (Some migration, None)"
    and "GetPlan r migration = (Some plan, None)"
    and "\<not> IsReady (MigPlan.Status plan)"
  shows "getDVMPlanResources r direct = Return (Some \<lparr>MigPlan = None\<rparr>, None)"
  using assms by (simp add: getDVMPlanResources_def)

lemma getDVMPlanResources_absent:
  assumes "DirectVolumeMigration.OwnerReferences direct \<noteq> []"
    and "GetMigrationForDVM r direct = (None, None)"
  shows "getDVMPlanResources r direct = Return (Some \<lparr>MigPlan = None\<rparr>, None)"
  using assms by (simp add: getDVMPlanResources_def)

lemma getDVMPlanResources_no_owner:
  assumes "DirectVolumeMigration.OwnerReferences direct = []"
  shows "getDVMPlanResources r direct = Return (Some \<lparr>MigPlan = None\<rparr>, None)"
  using assms by (simp add: getDVMPlanResources_def)

lemma Unwrap_liberr_Wrap: "\<exists>e'. liberr_Wrap (Some e) = Some e' \<and> Unwrap e' = Unwrap e"
  by (cases e) simp_all

lemma getDVMPlanResources_lookup_error:
  assumes "DirectVolumeMigration.OwnerReferences direct \<noteq> []"
    and "GetMigrationForDVM r direct = (migration, Some e)"
  shows "\<exists>e'. getDVMPlanResources r direct = Return (Some \<lparr>MigPlan = None\<rparr>, Some e') \<and>
           Unwrap e' = Unwrap e"
  using assms Unwrap_liberr_Wrap [of e] by (auto simp: getDVMPlanResources_def)

section \<open>Trace correlator: proofs\<close>

lemma owningMigration_snoc:
  "owningMigration (ownerRefs @ [ownerRef]) =
     (if Kind ownerRef = ''MigMigration'' then Some ownerRef else owningMigration ownerRefs)"
proof (cases "Kind ownerRef = ''MigMigration''")
  case True
  then have "filter (\<lambda>ownerRef. Kind ownerRef = ''MigMigration'') (ownerRefs @ [ownerRef]) =
      filter (\<lambda>ownerRef. Kind ownerRef = ''MigMigration'') ownerRefs @ [ownerRef]"
    by simp
  then show ?thesis
    using True unfolding owningMigration_def
    by (cases "filter (\<lambda>ownerRef. Kind ownerRef = ''MigMigration'') ownerRefs") simp_all
next
  case False
  then show ?thesis by (simp add: owningMigration_def)
qed

lemma fold_ownerRefLoop:
  "fold (ownerRefLoop tr) ownerRefs acc =
     (case owningMigration ownerRefs of
        None \<Rightarrow> acc
      | Some ownerRef \<Rightarrow> GetSpanForMigrationUID tr (UID ownerRef))"
proof (induction ownerRefs rule: rev_induct)
  case Nil
  show ?case by (simp add: owningMigration_def)
next
  case (snoc ownerRef ownerRefs)
  have "fold (ownerRefLoop tr) (ownerRefs @ [ownerRef]) acc =
      ownerRefLoop tr ownerRef (fold (ownerRefLoop tr) ownerRefs acc)"
    by simp
  also have "\<dots> = (if Kind ownerRef \<noteq> ''MigMigration''
      then fold (ownerRefLoop tr) ownerRefs acc
      else GetSpanForMigrationUID tr (UID ownerRef))"
    by (rule ownerRefLoop_def)
  finally show ?case
    by (simp add: owningMigration_snoc snoc.IH)
qed

text \<open>
  Claim C9. \<open>initTracer\<close> returns no span when tracing is disabled or when no span
  is registered for the UID of the owning \<open>MigMigration\<close> (none is when the object has
  no such owner); otherwise it returns the span that the reconciler's tracer (initialised
  now if it was nil) starts under the name \<open>dim-reconcile-<name>\<close> as a child of the
  registered span's context.
\<close>

theorem initTracer_spec:
  "(\<not> Enabled tr \<or> registeredSpan tr dim = None \<longrightarrow> fst (initTracer tr r dim) = None) \<and>
   (\<forall>migrationSpan. Enabled tr \<and> registeredSpan tr dim = Some migrationSpan \<longrightarrow>
      fst (initTracer tr r dim) =
        Some (StartSpan tr
                (case tracer r of None \<Rightarrow> InitJaeger tr ''DirectImageMigration'' | Some t \<Rightarrow> t)
                (''dim-reconcile-'' @ DirectImageMigration.Name dim)
                [ChildOf (Context tr migrationSpan)]))"
  by (auto simp: initTracer_def registeredSpan_def fold_ownerRefLoop Let_def split: option.splits)

theorem initTracer_spec_witness:
  "fst (initTracer exTracing \<lparr>tracer = None\<rparr> exImage) = Some ''dim-reconcile-dim-1'' \<and>
   fst (initTracer (exTracing\<lparr>Enabled := False\<rparr>) \<lparr>tracer = None\<rparr> exImage) = None \<and>
   fst (initTracer exTracing \<lparr>tracer = None\<rparr> (exImage\<lparr>DirectImageMigration.OwnerReferences := []\<rparr>)) = None"
  using initTracer_spec [of exTracing exImage "\<lparr>tracer = None\<rparr>"]
    initTracer_spec [of "exTracing\<lparr>Enabled := False\<rparr>" exImage "\<lparr>tracer = None\<rparr>"]
    initTracer_spec [of exTracing "exImage\<lparr>DirectImageMigration.OwnerReferences := []\<rparr>" "\<lparr>tracer = None\<rparr>"]
  by (simp add: exTracing_def exImage_def exOwner_def registeredSpan_def owningMigration_def)

section \<open>Conditions: lemmas\<close>

lemma find_replaceCondition_same:
  "find (\<lambda>c. Type c = Type condition) (replaceCondition cs condition) = Some condition"
  by (induction cs) simp_all

lemma find_replaceCondition_other:
  "cndType \<noteq> Type condition \<Longrightarrow>
   find (\<lambda>c. Type c = cndType) (replaceCondition cs condition) = find (\<lambda>c. Type c = cndType) cs"
  by (induction cs) auto

lemma filter_replaceCondition_other:
  "cndType \<noteq> Type condition \<Longrightarrow>
   filter (\<lambda>c. Type c = cndType) (replaceCondition cs condition) = filter (\<lambda>c. Type c = cndType) cs"
  by (induction cs) auto

lemma filter_replaceCondition_none:
  "filter (\<lambda>c. Type c = Type condition) cs = [] \<Longrightarrow>
   filter (\<lambda>c. Type c = Type condition) (replaceCondition cs condition) = [condition]"
  by (induction cs) (auto split: if_splits)

lemma length_filter_replaceCondition:
  "Type condition = cndType \<Longrightarrow> length (filter (\<lambda>c. Type c = cndType) cs) \<le> 1 \<Longrightarrow>
   length (filter (\<lambda>c. Type c = cndType) (replaceCondition cs condition)) = 1"
proof (induction cs)
  case Nil
  then show ?case by simp
next
  case (Cons c cs)
  show ?case
  proof (cases "Type c = cndType")
    case True
    with Cons.prems have "filter (\<lambda>c. Type c = cndType) cs = []" by simp
    with True Cons.prems show ?thesis by simp
  next
    case False
    with Cons show ?thesis by simp
  qed
qed

lemma find_filter_deleted:
  "find (\<lambda>c. Type c = cndType) (filter (\<lambda>c. Type c \<noteq> cndType) cs) = None"
  by (induction cs) auto

lemma find_filter_other:
  "cndType \<noteq> deleted \<Longrightarrow>
   find (\<lambda>c. Type c = cndType) (filter (\<lambda>c. Type c \<noteq> deleted) cs) = find (\<lambda>c. Type c = cndType) cs"
  by (induction cs) auto

lemma filter_filter_other:
  "cndType \<noteq> deleted \<Longrightarrow>
   filter (\<lambda>c. Type c = cndType) (filter (\<lambda>c. Type c \<noteq> deleted) cs) = filter (\<lambda>c. Type c = cndType) cs"
  by (induction cs) auto

lemma condition_names_distinct:
  "Running \<noteq> Failed" "Running \<noteq> Succeeded" "Failed \<noteq> Succeeded"
  "Failed \<noteq> Running" "Succeeded \<noteq> Running" "Succeeded \<noteq> Failed"
  "MigrationFailed \<noteq> Completed"
  by (simp_all add: Running_def Failed_def Succeeded_def MigrationFailed_def Completed_def)

section \<open>The phase execution engine: proofs\<close>

lemma liberr_Wrap_Some: "\<exists>e'. liberr_Wrap (Some e) = Some e' \<and> Error e' = Error e"
  by (cases e) simp_all

lemma migrate_resolved:
  assumes "getDVMPlanResources r direct = Return (Some planResources, None)"
    and "getSparseFilePVCMap r (MigPlan planResources) = (sparse, None)"
    and "getEndpointType (RSYNC_ENDPOINT_TYPE k) r direct = Return (endpointType, None)"
  shows "migrate k r now direct = Return (migrateRun k now direct planResources sparse endpointType)"
  by (simp add: migrate_def assms)

lemma migrateRun_conflict:
  assumes "Run k (newTask k (markStarted now direct) planResources sparse endpointType)
             (markStarted now direct) = (task', direct', Some e)"
    and "IsConflict (Unwrap e)"
  shows "migrateRun k now direct planResources sparse endpointType = (direct', FastReQ k, None)"
  by (simp add: migrateRun_def assms)

lemma migrateRun_failure:
  assumes "Run k (newTask k (markStarted now direct) planResources sparse endpointType)
             (markStarted now direct) = (task', direct', Some e)"
    and "\<not> IsConflict (Unwrap e)"
  shows "migrateRun k now direct planResources sparse endpointType =
           migrateResult k
             (fst (fail task' direct' MigrationFailed
                     (if errors_Is e (FatalPlanError k) then Critical else Warn) [Error e]))
             (snd (fail task' direct' MigrationFailed
                     (if errors_Is e (FatalPlanError k) then Critical else Warn) [Error e]))"
  by (simp add: migrateRun_def assms fail_def)

lemma migrateRun_success:
  assumes "Run k (newTask k (markStarted now direct) planResources sparse endpointType)
             (markStarted now direct) = (task', direct', None)"
  shows "migrateRun k now direct planResources sparse endpointType = migrateResult k task' direct'"
  by (simp add: migrateRun_def assms)

lemma migrateResult_running:
  assumes "Task.Phase task \<noteq> Completed"
  shows "\<exists>out. migrateResult k task direct = (out, Requeue task, None) \<and>
           DirectVolumeMigrationStatus.Phase (DirectVolumeMigration.Status out) = Task.Phase task \<and>
           FindCondition (DirectVolumeMigration.Status out) Failed =
             FindCondition (DirectVolumeMigration.Status direct) Failed"
  using assms
  by (simp add: migrateResult_def Let_def SetCondition_def FindCondition_def
        find_replaceCondition_other condition_names_distinct split: prod.splits)

lemma migrateResult_completed:
  assumes "Task.Phase task = Completed"
  shows "\<exists>out. migrateResult k task direct = (out, NoReQ k, None) \<and>
           DirectVolumeMigrationStatus.Phase (DirectVolumeMigration.Status out) = Completed \<and>
           Conditions (DirectVolumeMigration.Status out) =
             (if FindCondition (DirectVolumeMigration.Status direct) Failed = None
              then replaceCondition
                     (filter (\<lambda>c. Type c \<noteq> Running) (Conditions (DirectVolumeMigration.Status direct)))
                     \<lparr>Type = Succeeded, Status = True', Reason = Completed, Category = Advisory,
                      Message = SucceededMessage k, Durable = True\<rparr>
              else filter (\<lambda>c. Type c \<noteq> Running) (Conditions (DirectVolumeMigration.Status direct)))"
  using assms
  by (simp add: migrateResult_def Let_def SetCondition_def FindCondition_def DeleteCondition_def
        find_filter_other condition_names_distinct)

subsection \<open>The example inputs, evaluated\<close>

lemma ex_resolvers:
  "getDVMPlanResources exCluster exDirect = Return (Some \<lparr>MigPlan = Some exPlan\<rparr>, None)"
  "getSparseFilePVCMap exCluster (MigPlan \<lparr>MigPlan = Some exPlan\<rparr>) = (Some [''ns1/pvc-a'' \<mapsto> True], None)"
  "getEndpointType ''RSYNC_ENDPOINT_TYPE'' exCluster exDirect = Return (Route, None)"
    apply (simp add: getDVMPlanResources_def exCluster_def exDirect_def exPlan_def)
   apply (simp add: getSparseFilePVCMap_def exCluster_def exAnalytic_def analyticLoop_def nsLoop_def pvLoop_def)
  apply (simp add: getEndpointType_def exCluster_def Route_def ClusterIP_def NodePort_def)
  done

lemma ex_task:
  "markStarted 5 exDirect = exStarted"
  "newTask (exPackage err) exStarted \<lparr>MigPlan = Some exPlan\<rparr> (Some [''ns1/pvc-a'' \<mapsto> True]) Route
     = exTask\<lparr>Requeue := 0\<rparr>"
  by (simp_all add: markStarted_def exStarted_def exDirect_def newTask_def exTask_def exPackage_def)

lemma ex_run:
  "Run (exPackage err) (newTask (exPackage err) (markStarted 5 exDirect) \<lparr>MigPlan = Some exPlan\<rparr>
         (Some [''ns1/pvc-a'' \<mapsto> True]) Route) (markStarted 5 exDirect)
     = (exTask, exStarted, err)"
  unfolding ex_task by (simp add: exPackage_def exTask_def)

lemma ex_package:
  "RSYNC_ENDPOINT_TYPE (exPackage err) = ''RSYNC_ENDPOINT_TYPE''"
  "FatalPlanError (exPackage err) = ErrorString 1 ''fatal plan error''"
  "FastReQ (exPackage err) = 100000000"
  "NoReQ (exPackage err) = 0"
  by (simp_all add: exPackage_def)

lemma ex_resolvers_failing:
  "getDVMPlanResources exClusterLookupFails exDirect =
     Return (Some \<lparr>MigPlan = None\<rparr>, Some (LibError exNotFound))"
  "getDVMPlanResources exClusterListFails exDirect = Return (Some \<lparr>MigPlan = Some exPlan\<rparr>, None)"
  "getSparseFilePVCMap exClusterListFails (Some exPlan) = (None, Some (LibError exUnavailable))"
  "getDVMPlanResources exClusterDestFails exDirect = Return (Some \<lparr>MigPlan = Some exPlan\<rparr>, None)"
  "getSparseFilePVCMap exClusterDestFails (Some exPlan) = (Some [''ns1/pvc-a'' \<mapsto> True], None)"
  "getEndpointType ''RSYNC_ENDPOINT_TYPE'' exClusterDestFails exDirect =
     Return ([], Some (LibError exUnavailable))"
       apply (simp add: getDVMPlanResources_def exClusterLookupFails_def exCluster_def exDirect_def
          exNotFound_def)
      apply (simp add: getDVMPlanResources_def exClusterListFails_def exCluster_def exDirect_def exPlan_def)
     apply (simp add: getSparseFilePVCMap_def exClusterListFails_def exCluster_def exUnavailable_def)
    apply (simp add: getDVMPlanResources_def exClusterDestFails_def exCluster_def exDirect_def exPlan_def)
   apply (simp add: getSparseFilePVCMap_def exClusterDestFails_def exCluster_def exAnalytic_def
      analyticLoop_def nsLoop_def pvLoop_def)
  apply (simp add: getEndpointType_def exClusterDestFails_def exCluster_def exUnavailable_def)
  done

subsection \<open>The claims on \<open>migrate\<close>\<close>

text \<open>
  Claim C1. When the three resolvers succeed and the step executor returns an error that
  is a conflict once unwrapped, \<open>migrate\<close> returns \<open>FastReQ\<close> and a nil error, and
  the object it leaves is the object as the executor left it: \<open>migrate\<close> writes neither
  \<open>Status.Phase\<close> nor \<open>Status.PhaseDescription\<close> nor any condition. So each of
  \<open>Phase\<close>, \<open>PhaseDescription\<close> and the conditions that the executor did not write
  is as it was before the reconcile, and no \<open>Failed\<close> condition is added.
\<close>

theorem migrate_conflict:
  assumes "getDVMPlanResources r direct = Return (Some planResources, None)"
    and "getSparseFilePVCMap r (MigPlan planResources) = (sparse, None)"
    and "getEndpointType (RSYNC_ENDPOINT_TYPE k) r direct = Return (endpointType, None)"
    and "Run k (newTask k (markStarted now direct) planResources sparse endpointType)
           (markStarted now direct) = (task', direct', Some e)"
    and "IsConflict (Unwrap e)"
  shows "\<exists>out. migrate k r now direct = Return (out, FastReQ k, None) \<and> out = direct' \<and>
           (DirectVolumeMigrationStatus.Phase (DirectVolumeMigration.Status direct') =
              DirectVolumeMigrationStatus.Phase (DirectVolumeMigration.Status (markStarted now direct))
            \<longrightarrow> DirectVolumeMigrationStatus.Phase (DirectVolumeMigration.Status out) =
                  DirectVolumeMigrationStatus.Phase (DirectVolumeMigration.Status direct)) \<and>
           (DirectVolumeMigrationStatus.PhaseDescription (DirectVolumeMigration.Status direct') =
              DirectVolumeMigrationStatus.PhaseDescription (DirectVolumeMigration.Status (markStarted now direct))
            \<longrightarrow> DirectVolumeMigrationStatus.PhaseDescription (DirectVolumeMigration.Status out) =
                  DirectVolumeMigrationStatus.PhaseDescription (DirectVolumeMigration.Status direct)) \<and>
           (Conditions (DirectVolumeMigration.Status direct') =
              Conditions (DirectVolumeMigration.Status (markStarted now direct))
            \<longrightarrow> Conditions (DirectVolumeMigration.Status out) =
                  Conditions (DirectVolumeMigration.Status direct))"
  unfolding migrate_resolved [OF assms(1-3)] migrateRun_conflict [OF assms(4,5)]
  by (simp add: markStarted_def)

theorem migrate_conflict_witness:
  "migrate (exPackage (Some (LibError exConflict))) exCluster 5 exDirect =
     Return (exStarted, 100000000, None) \<and>
   DirectVolumeMigrationStatus.Phase (DirectVolumeMigration.Status exStarted) = ''Created'' \<and>
   Conditions (DirectVolumeMigration.Status exStarted) = []"
proof -
  let ?k = "exPackage (Some (LibError exConflict))"
  have run: "Run ?k (newTask ?k (markStarted 5 exDirect) \<lparr>MigPlan = Some exPlan\<rparr>
                 (Some [''ns1/pvc-a'' \<mapsto> True]) Route) (markStarted 5 exDirect)
               = (exTask, exStarted, Some (LibError exConflict))"
    unfolding ex_task by (simp add: exPackage_def exTask_def)
  have key: "RSYNC_ENDPOINT_TYPE ?k = ''RSYNC_ENDPOINT_TYPE''" and fast: "FastReQ ?k = 100000000"
    by (simp_all add: exPackage_def)
  have conflict: "IsConflict (Unwrap (LibError exConflict))"
    by (simp add: exConflict_def)
  from migrate_conflict [of exCluster exDirect "\<lparr>MigPlan = Some exPlan\<rparr>"
      "Some [''ns1/pvc-a'' \<mapsto> True]" ?k Route 5 exTask exStarted "LibError exConflict",
      OF ex_resolvers(1) ex_resolvers(2) _ run conflict]
    ex_resolvers(3)
  show ?thesis
    by (simp add: key fast exStarted_def exDirect_def)
qed


lemma migrate_failure_step:
  assumes "getDVMPlanResources r direct = Return (Some planResources, None)"
    and "getSparseFilePVCMap r (MigPlan planResources) = (sparse, None)"
    and "getEndpointType (RSYNC_ENDPOINT_TYPE k) r direct = Return (endpointType, None)"
    and "Run k (newTask k (markStarted now direct) planResources sparse endpointType)
           (markStarted now direct) = (task', direct', Some e)"
    and "\<not> IsConflict (Unwrap e)"
  shows "\<exists>out. migrate k r now direct = Return (out, Requeue task', None) \<and>
           DirectVolumeMigrationStatus.Phase (DirectVolumeMigration.Status out) = MigrationFailed \<and>
           FindCondition (DirectVolumeMigration.Status out) Failed =
             Some \<lparr>Type = Failed, Status = True', Reason = Task.Phase task',
                   Category = (if errors_Is e (FatalPlanError k) then Critical else Warn),
                   Message = Error e, Durable = True\<rparr>"
proof -
  let ?category = "if errors_Is e (FatalPlanError k) then Critical else Warn"
  let ?failed = "fail task' direct' MigrationFailed ?category [Error e]"
  have phase: "Task.Phase (fst ?failed) \<noteq> Completed"
    by (simp add: fail_def condition_names_distinct)
  from migrateResult_running [OF phase, of k "snd ?failed"]
  obtain out where out: "migrateResult k (fst ?failed) (snd ?failed) = (out, Requeue (fst ?failed), None)"
    and p: "DirectVolumeMigrationStatus.Phase (DirectVolumeMigration.Status out) = Task.Phase (fst ?failed)"
    and f: "FindCondition (DirectVolumeMigration.Status out) Failed =
              FindCondition (DirectVolumeMigration.Status (snd ?failed)) Failed"
    by blast
  have "migrate k r now direct = Return (out, Requeue task', None)"
    unfolding migrate_resolved [OF assms(1-3)] migrateRun_failure [OF assms(4,5)] out
    by (simp add: fail_def)
  moreover have "DirectVolumeMigrationStatus.Phase (DirectVolumeMigration.Status out) = MigrationFailed"
    unfolding p by (simp add: fail_def)
  moreover have "FindCondition (DirectVolumeMigration.Status out) Failed =
      Some \<lparr>Type = Failed, Status = True', Reason = Task.Phase task', Category = ?category,
            Message = Error e, Durable = True\<rparr>"
    unfolding f
    using find_replaceCondition_same [of
        "\<lparr>Type = Failed, Status = True', Reason = Task.Phase task', Category = ?category,
          Message = Error e, Durable = True\<rparr>"
        "Conditions (DirectVolumeMigration.Status direct')"]
    by (simp add: fail_def FindCondition_def SetCondition_def)
  ultimately show ?thesis by blast
qed


text \<open>
  Claim C3. When the three resolvers succeed and the step executor returns an error that
  is not a conflict, \<open>migrate\<close> leaves the object in phase \<open>MigrationFailed\<close> with
  a durable \<open>Failed\<close> condition whose message is the error's text and whose category
  is \<open>Critical\<close> when \<open>errors.Is(err, FatalPlanError)\<close> and \<open>Warn\<close> otherwise. It
  returns a nil error and the requeue interval that the one execution of the step left
  in the task: the executor is not run again.
\<close>

theorem migrate_failure:
  assumes "getDVMPlanResources r direct = Return (Some planResources, None)"
    and "getSparseFilePVCMap r (MigPlan planResources) = (sparse, None)"
    and "getEndpointType (RSYNC_ENDPOINT_TYPE k) r direct = Return (endpointType, None)"
    and "Run k (newTask k (markStarted now direct) planResources sparse endpointType)
           (markStarted now direct) = (task', direct', Some e)"
    and "\<not> IsConflict (Unwrap e)"
  shows "\<exists>out. migrate k r now direct = Return (out, Requeue task', None) \<and>
           DirectVolumeMigrationStatus.Phase (DirectVolumeMigration.Status out) = MigrationFailed \<and>
           FindCondition (DirectVolumeMigration.Status out) Failed =
             Some \<lparr>Type = Failed, Status = True', Reason = Task.Phase task',
                   Category = (if errors_Is e (FatalPlanError k) then Critical else Warn),
                   Message = Error e, Durable = True\<rparr>"
  by (rule migrate_failure_step [OF assms])

theorem migrate_failure_witness:
  "(\<exists>out. migrate (exPackage (Some (WrapError ''plan is broken: fatal plan error''
                                      (ErrorString 1 ''fatal plan error'')))) exCluster 5 exDirect
             = Return (out, 3000000000, None) \<and>
          DirectVolumeMigrationStatus.Phase (DirectVolumeMigration.Status out) = ''MigrationFailed'' \<and>
          FindCondition (DirectVolumeMigration.Status out) ''Failed'' =
            Some \<lparr>Type = ''Failed'', Status = ''True'', Reason = ''Created'', Category = ''Critical'',
                  Message = ''plan is broken: fatal plan error'', Durable = True\<rparr>) \<and>
   (\<exists>out. migrate (exPackage (Some (LibError exUnavailable))) exCluster 5 exDirect
             = Return (out, 3000000000, None) \<and>
          DirectVolumeMigrationStatus.Phase (DirectVolumeMigration.Status out) = ''MigrationFailed'' \<and>
          FindCondition (DirectVolumeMigration.Status out) ''Failed'' =
            Some \<lparr>Type = ''Failed'', Status = ''True'', Reason = ''Created'', Category = ''Warn'',
                  Message = ''connection refused'', Durable = True\<rparr>)"
proof -
  let ?fatal = "WrapError ''plan is broken: fatal plan error'' (ErrorString 1 ''fatal plan error'')"
  have r3: "getEndpointType (RSYNC_ENDPOINT_TYPE (exPackage err)) exCluster exDirect = Return (Route, None)"
    for err :: "error option"
    by (simp add: ex_package ex_resolvers)
  have a: "\<not> IsConflict (Unwrap ?fatal)" and b: "\<not> IsConflict (Unwrap (LibError exUnavailable))"
    by (simp_all add: exUnavailable_def)
  from migrate_failure [OF ex_resolvers(1) ex_resolvers(2) r3 ex_run a]
    migrate_failure [OF ex_resolvers(1) ex_resolvers(2) r3 ex_run b]
  show ?thesis
    by (simp add: ex_package exTask_def exUnavailable_def MigrationFailed_def Failed_def True'_def
          Critical_def Warn_def)
qed

text \<open>
  Claim C2. Take a reconcile whose resolvers succeed, whose step executor returns no
  conflict, and that ends with the object in phase \<open>Completed\<close>. Then \<open>migrate\<close>
  returns \<open>NoReQ\<close> and a nil error and the object has no \<open>Running\<close> condition. If the
  object had no \<open>Failed\<close> condition, it has the condition \<open>Succeeded\<close> with status
  \<open>True\<close>, category \<open>Advisory\<close>, the message \<open>SucceededMessage\<close> and
  \<open>Durable\<close>, and exactly one condition of that type (it had at most one). If it had
  a \<open>Failed\<close> condition, its conditions are the former ones without \<open>Running\<close>: no
  \<open>Succeeded\<close> condition is added.
\<close>

theorem migrate_completed:
  assumes "getDVMPlanResources r direct = Return (Some planResources, None)"
    and "getSparseFilePVCMap r (MigPlan planResources) = (sparse, None)"
    and "getEndpointType (RSYNC_ENDPOINT_TYPE k) r direct = Return (endpointType, None)"
    and "Run k (newTask k (markStarted now direct) planResources sparse endpointType)
           (markStarted now direct) = (task', direct', err)"
    and "\<forall>e. err = Some e \<longrightarrow> \<not> IsConflict (Unwrap e)"
    and "migrate k r now direct = Return (out, requeue, errOut)"
    and "DirectVolumeMigrationStatus.Phase (DirectVolumeMigration.Status out) = Completed"
  shows "requeue = NoReQ k \<and> errOut = None \<and>
         FindCondition (DirectVolumeMigration.Status out) Running = None \<and>
         (FindCondition (DirectVolumeMigration.Status direct') Failed = None \<longrightarrow>
            FindCondition (DirectVolumeMigration.Status out) Succeeded =
              Some \<lparr>Type = Succeeded, Status = True', Reason = Completed, Category = Advisory,
                    Message = SucceededMessage k, Durable = True\<rparr> \<and>
            (length (filter (\<lambda>c. Type c = Succeeded) (Conditions (DirectVolumeMigration.Status direct'))) \<le> 1
             \<longrightarrow> length (filter (\<lambda>c. Type c = Succeeded) (Conditions (DirectVolumeMigration.Status out))) = 1)) \<and>
         (FindCondition (DirectVolumeMigration.Status direct') Failed \<noteq> None \<longrightarrow>
            Conditions (DirectVolumeMigration.Status out) =
              filter (\<lambda>c. Type c \<noteq> Running) (Conditions (DirectVolumeMigration.Status direct')))"
proof -
  let ?succeeded = "\<lparr>Type = Succeeded, Status = True', Reason = Completed, Category = Advisory,
                     Message = SucceededMessage k, Durable = True\<rparr>"
  let ?deleted = "filter (\<lambda>c. Type c \<noteq> Running) (Conditions (DirectVolumeMigration.Status direct'))"
  have none: "err = None"
  proof (cases err)
    case None
    then show ?thesis .
  next
    case (Some e)
    with assms(5) have "\<not> IsConflict (Unwrap e)" by simp
    from migrate_failure_step [OF assms(1-3) assms(4) [unfolded Some] this] assms(6)
    have "DirectVolumeMigrationStatus.Phase (DirectVolumeMigration.Status out) = MigrationFailed"
      by auto
    with assms(7) show ?thesis
      by (simp add: condition_names_distinct)
  qed
  have run: "migrate k r now direct = Return (migrateResult k task' direct')"
    unfolding migrate_resolved [OF assms(1-3)] migrateRun_success [OF assms(4) [unfolded none]] ..
  have completed: "Task.Phase task' = Completed"
  proof (rule ccontr)
    assume other: "Task.Phase task' \<noteq> Completed"
    from migrateResult_running [OF other, of k direct'] run assms(6,7) other show False
      by auto
  qed
  from migrateResult_completed [OF completed, of k direct'] run assms(6)
  have rq: "requeue = NoReQ k" and eo: "errOut = None"
    and cs: "Conditions (DirectVolumeMigration.Status out) =
               (if FindCondition (DirectVolumeMigration.Status direct') Failed = None
                then replaceCondition ?deleted ?succeeded else ?deleted)"
    by auto
  have running: "FindCondition (DirectVolumeMigration.Status out) Running = None"
    unfolding FindCondition_def cs
    using find_replaceCondition_other [of Running ?succeeded ?deleted]
    by (simp add: find_filter_deleted condition_names_distinct)
  have found: "FindCondition (DirectVolumeMigration.Status out) Succeeded = Some ?succeeded"
    if absent: "FindCondition (DirectVolumeMigration.Status direct') Failed = None"
  proof -
    from cs absent
    have "Conditions (DirectVolumeMigration.Status out) = replaceCondition ?deleted ?succeeded"
      by simp
    with find_replaceCondition_same [of ?succeeded ?deleted] show ?thesis
      by (simp add: FindCondition_def)
  qed
  have once: "length (filter (\<lambda>c. Type c = Succeeded) (Conditions (DirectVolumeMigration.Status out))) = 1"
    if absent: "FindCondition (DirectVolumeMigration.Status direct') Failed = None"
      and le: "length (filter (\<lambda>c. Type c = Succeeded) (Conditions (DirectVolumeMigration.Status direct'))) \<le> 1"
  proof -
    from cs absent
    have "Conditions (DirectVolumeMigration.Status out) = replaceCondition ?deleted ?succeeded"
      by simp
    moreover have "filter (\<lambda>c. Type c = Succeeded) ?deleted =
        filter (\<lambda>c. Type c = Succeeded) (Conditions (DirectVolumeMigration.Status direct'))"
      by (rule filter_filter_other) (rule condition_names_distinct)
    with le have "length (filter (\<lambda>c. Type c = Succeeded) ?deleted) \<le> 1"
      by (simp only:)
    moreover have "Type ?succeeded = Succeeded"
      by simp
    ultimately show ?thesis
      using length_filter_replaceCondition [of ?succeeded Succeeded ?deleted] by (simp only:)
  qed
  have kept: "Conditions (DirectVolumeMigration.Status out) = ?deleted"
    if "FindCondition (DirectVolumeMigration.Status direct') Failed \<noteq> None"
    unfolding cs using that by auto
  from rq eo running found once kept show ?thesis by blast
qed


theorem migrate_completed_witness:
  "(\<exists>out. migrate exPackageCompleted exCluster 5 exDirect = Return (out, 0, None) \<and>
      FindCondition (DirectVolumeMigration.Status out) Running = None \<and>
      FindCondition (DirectVolumeMigration.Status out) Succeeded =
        Some \<lparr>Type = Succeeded, Status = True', Reason = Completed, Category = Advisory,
              Message = ''The migration has completed successfully.'', Durable = True\<rparr> \<and>
      length (filter (\<lambda>c. Type c = Succeeded) (Conditions (DirectVolumeMigration.Status out))) = 1) \<and>
   (\<exists>out. migrate exPackageCompletedFailed exCluster 5 exDirect = Return (out, 0, None) \<and>
      FindCondition (DirectVolumeMigration.Status out) Running = None \<and>
      Conditions (DirectVolumeMigration.Status out) = [exFailedCondition])"
proof -
  let ?pr = "\<lparr>MigPlan = Some exPlan\<rparr>" and ?sparse = "Some [''ns1/pvc-a'' \<mapsto> True]"
  let ?done = "exTask\<lparr>Requeue := 0, Task.Phase := Completed\<rparr>"
  let ?failed = "exStarted\<lparr>DirectVolumeMigration.Status :=
      (DirectVolumeMigration.Status exStarted)\<lparr>Conditions := [exFailedCondition, exRunningCondition]\<rparr>\<rparr>"
  have k1: "RSYNC_ENDPOINT_TYPE exPackageCompleted = ''RSYNC_ENDPOINT_TYPE''"
    "NoReQ exPackageCompleted = 0"
    "SucceededMessage exPackageCompleted = ''The migration has completed successfully.''"
    and k2: "RSYNC_ENDPOINT_TYPE exPackageCompletedFailed = ''RSYNC_ENDPOINT_TYPE''"
    "NoReQ exPackageCompletedFailed = 0"
    by (simp_all add: exPackageCompleted_def exPackageCompletedFailed_def exPackage_def)
  have r1: "getEndpointType (RSYNC_ENDPOINT_TYPE exPackageCompleted) exCluster exDirect = Return (Route, None)"
    and r2: "getEndpointType (RSYNC_ENDPOINT_TYPE exPackageCompletedFailed) exCluster exDirect = Return (Route, None)"
    by (simp_all add: k1 k2 ex_resolvers)
  have run1: "Run exPackageCompleted
      (newTask exPackageCompleted (markStarted 5 exDirect) ?pr ?sparse Route) (markStarted 5 exDirect)
        = (?done, exStarted, None)"
    unfolding ex_task(1)
    by (simp add: newTask_def exPackageCompleted_def exPackage_def exTask_def exStarted_def
          exDirect_def)
  have run2: "Run exPackageCompletedFailed
      (newTask exPackageCompletedFailed (markStarted 5 exDirect) ?pr ?sparse Route) (markStarted 5 exDirect)
        = (?done, ?failed, None)"
    unfolding ex_task(1)
    by (simp add: newTask_def exPackageCompletedFailed_def exPackage_def exTask_def
          exStarted_def exDirect_def)
  have none: "\<forall>e. (None :: error option) = Some e \<longrightarrow> \<not> IsConflict (Unwrap e)"
    by simp
  have phase: "Task.Phase ?done = Completed"
    by simp
  from migrateResult_completed [OF phase, of exPackageCompleted exStarted]
  obtain out1 where m1: "migrate exPackageCompleted exCluster 5 exDirect = Return (out1, 0, None)"
    and p1: "DirectVolumeMigrationStatus.Phase (DirectVolumeMigration.Status out1) = Completed"
    unfolding migrate_resolved [OF ex_resolvers(1) ex_resolvers(2) r1] migrateRun_success [OF run1]
    by (auto simp: k1)
  from migrateResult_completed [OF phase, of exPackageCompletedFailed ?failed]
  obtain out2 where m2: "migrate exPackageCompletedFailed exCluster 5 exDirect = Return (out2, 0, None)"
    and p2: "DirectVolumeMigrationStatus.Phase (DirectVolumeMigration.Status out2) = Completed"
    unfolding migrate_resolved [OF ex_resolvers(1) ex_resolvers(2) r2] migrateRun_success [OF run2]
    by (auto simp: k2)
  have absent: "FindCondition (DirectVolumeMigration.Status exStarted) Failed = None"
    and once: "length (filter (\<lambda>c. Type c = Succeeded) (Conditions (DirectVolumeMigration.Status exStarted))) \<le> 1"
    and present: "FindCondition (DirectVolumeMigration.Status ?failed) Failed \<noteq> None"
    and rest: "filter (\<lambda>c. Type c \<noteq> Running) (Conditions (DirectVolumeMigration.Status ?failed)) = [exFailedCondition]"
    by (simp_all add: FindCondition_def exStarted_def exDirect_def exFailedCondition_def
          exRunningCondition_def condition_names_distinct)
  from migrate_completed [OF ex_resolvers(1) ex_resolvers(2) r1 run1 none m1 p1] absent once
  have w1: "FindCondition (DirectVolumeMigration.Status out1) Running = None \<and>
      FindCondition (DirectVolumeMigration.Status out1) Succeeded =
        Some \<lparr>Type = Succeeded, Status = True', Reason = Completed, Category = Advisory,
              Message = ''The migration has completed successfully.'', Durable = True\<rparr> \<and>
      length (filter (\<lambda>c. Type c = Succeeded) (Conditions (DirectVolumeMigration.Status out1))) = 1"
    by (simp add: k1)
  from migrate_completed [OF ex_resolvers(1) ex_resolvers(2) r2 run2 none m2 p2] present rest
  have w2: "FindCondition (DirectVolumeMigration.Status out2) Running = None \<and>
      Conditions (DirectVolumeMigration.Status out2) = [exFailedCondition]"
    by simp
  from m1 w1 m2 w2 show ?thesis by blast
qed


text \<open>
  Claim C10. If \<open>getDVMPlanResources\<close>, or after it \<open>getSparseFilePVCMap\<close>, or after
  both \<open>getEndpointType\<close> returns an error, \<open>migrate\<close> returns the requeue duration
  0 and that error through \<open>liberr.Wrap\<close> (which is not nil), and the object is exactly
  as it was: \<open>Phase\<close>, \<open>PhaseDescription\<close>, \<open>Itinerary\<close>, \<open>Conditions\<close> and
  \<open>StartTimestamp\<close> included.
\<close>

theorem migrate_resolver_error:
  "(getDVMPlanResources r direct = Return (planResources, Some e) \<longrightarrow>
      migrate k r now direct = Return (direct, 0, liberr_Wrap (Some e))) \<and>
   (getDVMPlanResources r direct = Return (Some resources, None) \<and>
    getSparseFilePVCMap r (MigPlan resources) = (sparse, Some e) \<longrightarrow>
      migrate k r now direct = Return (direct, 0, liberr_Wrap (Some e))) \<and>
   (getDVMPlanResources r direct = Return (Some resources, None) \<and>
    getSparseFilePVCMap r (MigPlan resources) = (sparse', None) \<and>
    getEndpointType (RSYNC_ENDPOINT_TYPE k) r direct = Return (endpointType, Some e) \<longrightarrow>
      migrate k r now direct = Return (direct, 0, liberr_Wrap (Some e))) \<and>
   liberr_Wrap (Some e) \<noteq> None"
proof -
  have "liberr_Wrap (Some e) \<noteq> None"
    using liberr_Wrap_Some [of e] by auto
  then show ?thesis
    by (simp add: migrate_def)
qed

theorem migrate_resolver_error_witness:
  "migrate (exPackage None) exClusterLookupFails 5 exDirect =
     Return (exDirect, 0, Some (LibError exNotFound)) \<and>
   migrate (exPackage None) exClusterListFails 5 exDirect =
     Return (exDirect, 0, Some (LibError exUnavailable)) \<and>
   migrate (exPackage None) exClusterDestFails 5 exDirect =
     Return (exDirect, 0, Some (LibError exUnavailable))"
  using
    migrate_resolver_error [where r = exClusterLookupFails and direct = exDirect
      and planResources = "Some \<lparr>MigPlan = None\<rparr>" and e = "LibError exNotFound"
      and k = "exPackage None" and now = 5]
    migrate_resolver_error [where r = exClusterListFails and direct = exDirect
      and resources = "\<lparr>MigPlan = Some exPlan\<rparr>" and sparse = None
      and e = "LibError exUnavailable" and k = "exPackage None" and now = 5]
    migrate_resolver_error [where r = exClusterDestFails and direct = exDirect
      and resources = "\<lparr>MigPlan = Some exPlan\<rparr>"
      and sparse' = "Some [''ns1/pvc-a'' \<mapsto> True]" and endpointType = "[]"
      and e = "LibError exUnavailable" and k = "exPackage None" and now = 5]
  by (simp add: ex_resolvers_failing ex_package)

text \<open>
  Claim C4 as stated fails. On a cluster where the lookup of the parent migration
  answers "not found", plan-resource resolution returns an error that is no conflict,
  and \<open>migrate\<close> returns it with the object untouched: the object has no condition
  at all when the reconcile returns.
\<close>

theorem migrate_resolver_error_unrecorded:
  "getDVMPlanResources exClusterLookupFails exDirect =
     Return (Some \<lparr>MigPlan = None\<rparr>, Some (LibError exNotFound)) \<and>
   \<not> IsConflict (Unwrap (LibError exNotFound)) \<and>
   migrate (exPackage None) exClusterLookupFails 5 exDirect =
     Return (exDirect, 0, Some (LibError exNotFound)) \<and>
   Conditions (DirectVolumeMigration.Status exDirect) = []"
proof -
  have "Conditions (DirectVolumeMigration.Status exDirect) = []"
    by (simp add: exDirect_def)
  then show ?thesis
    by (simp add: migrate_def ex_resolvers_failing exNotFound_def)
qed

text \<open>
  Claim C4, amended. An error returned by plan-resource, sparse-file-map or
  endpoint-type resolution is not recorded as a condition: \<open>migrate\<close> returns it to
  its caller, not nil and with the same text, with requeue 0 and the object unchanged.
  An error of the step executor that is not a conflict is recorded on the object, before
  \<open>migrate\<close> returns, as a durable \<open>Failed\<close> condition whose message is the error's
  text.
\<close>

theorem migrate_failure_recorded_or_returned:
  "(getDVMPlanResources r direct = Return (planResources, Some e) \<longrightarrow>
      (\<exists>e'. migrate k r now direct = Return (direct, 0, Some e') \<and> Error e' = Error e)) \<and>
   (getDVMPlanResources r direct = Return (Some resources, None) \<and>
    getSparseFilePVCMap r (MigPlan resources) = (sparse, Some e) \<longrightarrow>
      (\<exists>e'. migrate k r now direct = Return (direct, 0, Some e') \<and> Error e' = Error e)) \<and>
   (getDVMPlanResources r direct = Return (Some resources, None) \<and>
    getSparseFilePVCMap r (MigPlan resources) = (sparse', None) \<and>
    getEndpointType (RSYNC_ENDPOINT_TYPE k) r direct = Return (endpointType, Some e) \<longrightarrow>
      (\<exists>e'. migrate k r now direct = Return (direct, 0, Some e') \<and> Error e' = Error e)) \<and>
   (getDVMPlanResources r direct = Return (Some resources, None) \<and>
    getSparseFilePVCMap r (MigPlan resources) = (sparse', None) \<and>
    getEndpointType (RSYNC_ENDPOINT_TYPE k) r direct = Return (endpointType', None) \<and>
    Run k (newTask k (markStarted now direct) resources sparse' endpointType')
      (markStarted now direct) = (task', direct', Some e) \<and>
    \<not> IsConflict (Unwrap e) \<longrightarrow>
      (\<exists>out requeue c. migrate k r now direct = Return (out, requeue, None) \<and>
         FindCondition (DirectVolumeMigration.Status out) Failed = Some c \<and>
         Message c = Error e \<and> Durable c))"
proof -
  obtain e' where e': "liberr_Wrap (Some e) = Some e'" "Error e' = Error e"
    using liberr_Wrap_Some [of e] by blast
  have recorded: "\<exists>out requeue c. migrate k r now direct = Return (out, requeue, None) \<and>
         FindCondition (DirectVolumeMigration.Status out) Failed = Some c \<and>
         Message c = Error e \<and> Durable c"
    if a: "getDVMPlanResources r direct = Return (Some resources, None)"
      and b: "getSparseFilePVCMap r (MigPlan resources) = (sparse', None)"
      and c: "getEndpointType (RSYNC_ENDPOINT_TYPE k) r direct = Return (endpointType', None)"
      and d: "Run k (newTask k (markStarted now direct) resources sparse' endpointType')
                (markStarted now direct) = (task', direct', Some e)"
      and n: "\<not> IsConflict (Unwrap e)"
  proof -
    from migrate_failure_step [OF a b c d n] obtain out where
      "migrate k r now direct = Return (out, Requeue task', None)"
      "FindCondition (DirectVolumeMigration.Status out) Failed =
         Some \<lparr>Type = Failed, Status = True', Reason = Task.Phase task',
               Category = (if errors_Is e (FatalPlanError k) then Critical else Warn),
               Message = Error e, Durable = True\<rparr>"
      by blast
    then show ?thesis by simp
  qed
  from e' recorded show ?thesis
    by (simp add: migrate_def)
qed


theorem migrate_failure_recorded_or_returned_witness:
  "(\<exists>e'. migrate (exPackage None) exClusterLookupFails 5 exDirect = Return (exDirect, 0, Some e') \<and>
         Error e' = ''migmigrations \"migration-1\" not found'') \<and>
   (\<exists>e'. migrate (exPackage None) exClusterListFails 5 exDirect = Return (exDirect, 0, Some e') \<and>
         Error e' = ''connection refused'') \<and>
   (\<exists>e'. migrate (exPackage None) exClusterDestFails 5 exDirect = Return (exDirect, 0, Some e') \<and>
         Error e' = ''connection refused'') \<and>
   (\<exists>out requeue c.
      migrate (exPackage (Some (LibError exUnavailable))) exCluster 5 exDirect =
        Return (out, requeue, None) \<and>
      FindCondition (DirectVolumeMigration.Status out) Failed = Some c \<and>
      Message c = ''connection refused'' \<and> Durable c)"
proof -
  have run: "Run (exPackage (Some (LibError exUnavailable)))
      (newTask (exPackage (Some (LibError exUnavailable))) (markStarted 5 exDirect)
         \<lparr>MigPlan = Some exPlan\<rparr> (Some [''ns1/pvc-a'' \<mapsto> True]) Route) (markStarted 5 exDirect)
        = (exTask, exStarted, Some (LibError exUnavailable))"
    by (rule ex_run)
  have texts: "Error (LibError exNotFound) = ''migmigrations \"migration-1\" not found''"
    "Error (LibError exUnavailable) = ''connection refused''"
    and other: "\<not> IsConflict (Unwrap (LibError exUnavailable))"
    by (simp_all add: exNotFound_def exUnavailable_def)
  have sparse: "getSparseFilePVCMap exCluster (Some exPlan) = (Some [''ns1/pvc-a'' \<mapsto> True], None)"
    using ex_resolvers(2) by simp
  from
    migrate_failure_recorded_or_returned [where r = exClusterLookupFails and direct = exDirect
      and planResources = "Some \<lparr>MigPlan = None\<rparr>" and e = "LibError exNotFound"
      and k = "exPackage None" and now = 5]
    migrate_failure_recorded_or_returned [where r = exClusterListFails and direct = exDirect
      and resources = "\<lparr>MigPlan = Some exPlan\<rparr>" and sparse = None
      and e = "LibError exUnavailable" and k = "exPackage None" and now = 5]
    migrate_failure_recorded_or_returned [where r = exClusterDestFails and direct = exDirect
      and resources = "\<lparr>MigPlan = Some exPlan\<rparr>"
      and sparse' = "Some [''ns1/pvc-a'' \<mapsto> True]" and endpointType = "[]"
      and e = "LibError exUnavailable" and k = "exPackage None" and now = 5]
    migrate_failure_recorded_or_returned [where r = exCluster and direct = exDirect
      and resources = "\<lparr>MigPlan = Some exPlan\<rparr>"
      and sparse' = "Some [''ns1/pvc-a'' \<mapsto> True]" and endpointType' = Route
      and e = "LibError exUnavailable" and k = "exPackage (Some (LibError exUnavailable))"
      and now = 5 and task' = exTask and direct' = exStarted]
    run other
  show ?thesis
    unfolding texts [symmetric]
    by (simp add: ex_resolvers_failing ex_resolvers sparse ex_package)
qed

end
